theory Spec2Isabelle
  imports Complex_Main
begin

section \<open>Catalyst physics extras: the property synchroniser of \<^verbatim>\<open>game_engine_physics.py\<close>\<close>

subsection \<open>Data model\<close>

text \<open>
  The two \<^verbatim>\<open>EnumProperty\<close> fields of \<^verbatim>\<open>CatalystPhysicsSettings\<close>. Reading such a field in
  Python yields the identifier string of the selected item (the first component of each item
  tuple); the functions below are that table, in the order of the source.
\<close>

datatype PhysicsBody = NoBody | Static | Dynamic | Kinematic

datatype PhysicsShape = NoShape | Box | Sphere | Capsule | Convex | Mesh

fun body_identifier :: "PhysicsBody \<Rightarrow> string" where
  "body_identifier NoBody = ''NONE''"
| "body_identifier Static = ''static''"
| "body_identifier Dynamic = ''dynamic''"
| "body_identifier Kinematic = ''kinematic''"

fun shape_identifier :: "PhysicsShape \<Rightarrow> string" where
  "shape_identifier NoShape = ''NONE''"
| "shape_identifier Box = ''box''"
| "shape_identifier Sphere = ''sphere''"
| "shape_identifier Capsule = ''capsule''"
| "shape_identifier Convex = ''convex''"
| "shape_identifier Mesh = ''mesh''"

text \<open>
  The property group. A \<^verbatim>\<open>FloatProperty\<close> is carried as a real number: the program performs
  no arithmetic on these values, it only copies them. \<^verbatim>\<open>IntProperty\<close> is a Python integer.
\<close>

record CatalystPhysicsSettings =
  cat_phys_body :: PhysicsBody
  cat_phys_shape :: PhysicsShape
  cat_phys_mass :: real
  cat_phys_gravity_scale :: real
  cat_phys_linear_damping :: real
  cat_phys_angular_damping :: real
  cat_phys_is_trigger :: bool
  cat_phys_layer :: int
  cat_phys_mask :: int
  cat_phys_material :: string

text \<open>
  The custom properties of an object: a dictionary from key names to scalar values.
  \<^verbatim>\<open>context.object\<close> is either \<^verbatim>\<open>None\<close> or the active object, which the model
  identifies with its property dictionary.
\<close>

datatype prop_value = VStr string | VFloat real | VBool bool | VInt int

type_synonym bag = "string \<rightharpoonup> prop_value"

record bpy_context =
  object :: "bag option"

datatype py_error = KeyError string

subsection \<open>Dictionary operations of the object\<close>

definition setitem :: "bag \<Rightarrow> string \<Rightarrow> prop_value \<Rightarrow> bag" where
  "setitem obj k v = obj(k \<mapsto> v)"

definition contains :: "bag \<Rightarrow> string \<Rightarrow> bool" where
  "contains obj k = (obj k \<noteq> None)"

text \<open>\<^verbatim>\<open>del obj[k]\<close> raises \<^verbatim>\<open>KeyError\<close> when the key is missing.\<close>

definition delitem :: "bag \<Rightarrow> string \<Rightarrow> py_error + bag" where
  "delitem obj k = (if obj k = None then Inl (KeyError k) else Inr (obj(k := None)))"

text \<open>Sequencing of statements that may raise: the first exception ends the run.\<close>

definition and_then :: "'e + 'a \<Rightarrow> ('a \<Rightarrow> 'e + 'b) \<Rightarrow> 'e + 'b" where
  "and_then r f = (case r of Inl e \<Rightarrow> Inl e | Inr x \<Rightarrow> f x)"

subsection \<open>The update function\<close>

text \<open>
  \<^verbatim>\<open>
  def sync_prop(prop_name, value, condition=True):
      if condition:
          obj[prop_name] = value
      else:
          if prop_name in obj:
              del obj[prop_name]
  \<close>
  The closure mutates \<^verbatim>\<open>obj\<close>; the model takes the dictionary and returns the new one.
\<close>

definition sync_prop :: "bag \<Rightarrow> string \<Rightarrow> prop_value \<Rightarrow> bool \<Rightarrow> py_error + bag" where
  "sync_prop obj prop_name val condition =
     (if condition then Inr (setitem obj prop_name val)
      else if contains obj prop_name then delitem obj prop_name
      else Inr obj)"

definition is_dynamic :: "CatalystPhysicsSettings \<Rightarrow> bool" where
  "is_dynamic self = (body_identifier (cat_phys_body self) = ''dynamic'')"

definition has_physics :: "CatalystPhysicsSettings \<Rightarrow> bool" where
  "has_physics self =
     (body_identifier (cat_phys_body self) \<noteq> ''NONE'' \<or>
      shape_identifier (cat_phys_shape self) \<noteq> ''NONE'')"

text \<open>
  The ten \<^verbatim>\<open>sync_prop\<close> calls of \<^verbatim>\<open>update_physics_props\<close>, in source order, on the
  dictionary of the active object.
\<close>

definition sync_all :: "CatalystPhysicsSettings \<Rightarrow> bag \<Rightarrow> py_error + bag" where
  "sync_all self obj0 =
     and_then (sync_prop obj0 ''physics_body'' (VStr (body_identifier (cat_phys_body self)))
                 (body_identifier (cat_phys_body self) \<noteq> ''NONE'')) (\<lambda>obj1.
     and_then (sync_prop obj1 ''physics_shape'' (VStr (shape_identifier (cat_phys_shape self)))
                 (shape_identifier (cat_phys_shape self) \<noteq> ''NONE'')) (\<lambda>obj2.
     and_then (sync_prop obj2 ''physics_mass'' (VFloat (cat_phys_mass self))
                 (is_dynamic self)) (\<lambda>obj3.
     and_then (sync_prop obj3 ''physics_gravity_scale'' (VFloat (cat_phys_gravity_scale self))
                 (is_dynamic self)) (\<lambda>obj4.
     and_then (sync_prop obj4 ''physics_linear_damping'' (VFloat (cat_phys_linear_damping self))
                 (is_dynamic self)) (\<lambda>obj5.
     and_then (sync_prop obj5 ''physics_angular_damping'' (VFloat (cat_phys_angular_damping self))
                 (is_dynamic self)) (\<lambda>obj6.
     and_then (sync_prop obj6 ''physics_is_trigger'' (VBool (cat_phys_is_trigger self))
                 (has_physics self)) (\<lambda>obj7.
     and_then (sync_prop obj7 ''physics_layer'' (VInt (cat_phys_layer self))
                 (has_physics self)) (\<lambda>obj8.
     and_then (sync_prop obj8 ''physics_mask'' (VInt (cat_phys_mask self))
                 (has_physics self)) (\<lambda>obj9.
     sync_prop obj9 ''physics_material'' (VStr (cat_phys_material self))
                 (has_physics self \<and> length (cat_phys_material self) > 0))))))))))"

text \<open>
  \<^verbatim>\<open>
  def update_physics_props(self, context):
      obj = context.object
      if not obj: return
      ...
  \<close>
  The result is the context after the call, or the exception that ended it.
\<close>

definition update_physics_props ::
    "CatalystPhysicsSettings \<Rightarrow> bpy_context \<Rightarrow> py_error + bpy_context" where
  "update_physics_props self context =
     (case object context of
        None \<Rightarrow> Inr context
      | Some obj \<Rightarrow> and_then (sync_all self obj) (\<lambda>obj'. Inr (context\<lparr>object := Some obj'\<rparr>)))"

text \<open>The keys the function names, in the order it writes them.\<close>

definition physics_keys :: "string list" where
  "physics_keys =
     [''physics_body'', ''physics_shape'', ''physics_mass'', ''physics_gravity_scale'',
      ''physics_linear_damping'', ''physics_angular_damping'', ''physics_is_trigger'',
      ''physics_layer'', ''physics_mask'', ''physics_material'']"

subsection \<open>The reader of the property bag\<close>

text \<open>
  Modelled from the spec: the record \<^verbatim>\<open>PhysicsExtras\<close> that \<^verbatim>\<open>decode\<close> returns (section 3 of
  the specification). The reader of the bag is the engine's side and is not part of the
  Python source. Field \<^verbatim>\<open>mask\<close> is written \<open>mask_field\<close>.
\<close>

record PhysicsExtras =
  body :: PhysicsBody
  shape :: PhysicsShape
  mass :: real
  gravity_scale :: real
  linear_damping :: real
  angular_damping :: real
  is_trigger :: bool
  layer :: int
  mask_field :: int
  material :: string

text \<open>
  Modelled from the spec: the errors of \<^verbatim>\<open>decode\<close> (section 7), which is absent from the
  source. An error names the offending key. \<^verbatim>\<open>UnknownEnumValue\<close> is "treated as
  MalformedBag", so it is one of the two kinds of a malformed bag.
\<close>

datatype malformed = WrongKind | UnknownEnumValue

datatype decode_error = MalformedBag malformed string

text \<open>
  Modelled from the spec: the string table of the enums as \<^verbatim>\<open>decode\<close> reads it, absent from
  the source. \<^verbatim>\<open>None\<close> "is never itself serialized as a value", so it has no string; the
  strings of the other values are those the writer stores.
\<close>

definition parse_body :: "string \<Rightarrow> PhysicsBody option" where
  "parse_body s =
     (if s = ''static'' then Some Static
      else if s = ''dynamic'' then Some Dynamic
      else if s = ''kinematic'' then Some Kinematic
      else None)"

definition parse_shape :: "string \<Rightarrow> PhysicsShape option" where
  "parse_shape s =
     (if s = ''box'' then Some Box
      else if s = ''sphere'' then Some Sphere
      else if s = ''capsule'' then Some Capsule
      else if s = ''convex'' then Some Convex
      else if s = ''mesh'' then Some Mesh
      else None)"

text \<open>
  Modelled from the spec: reading one key of the bag in \<^verbatim>\<open>decode\<close>, absent from the source.
  An absent key yields the default; a value of the wrong scalar kind is a malformed bag; an
  enum string outside the table is an unknown enum value.
\<close>

definition get_body :: "bag \<Rightarrow> decode_error + PhysicsBody" where
  "get_body b =
     (case b ''physics_body'' of
        None \<Rightarrow> Inr NoBody
      | Some (VStr s) \<Rightarrow>
          (case parse_body s of
             None \<Rightarrow> Inl (MalformedBag UnknownEnumValue ''physics_body'')
           | Some x \<Rightarrow> Inr x)
      | Some _ \<Rightarrow> Inl (MalformedBag WrongKind ''physics_body''))"

definition get_shape :: "bag \<Rightarrow> decode_error + PhysicsShape" where
  "get_shape b =
     (case b ''physics_shape'' of
        None \<Rightarrow> Inr NoShape
      | Some (VStr s) \<Rightarrow>
          (case parse_shape s of
             None \<Rightarrow> Inl (MalformedBag UnknownEnumValue ''physics_shape'')
           | Some x \<Rightarrow> Inr x)
      | Some _ \<Rightarrow> Inl (MalformedBag WrongKind ''physics_shape''))"

definition get_float :: "bag \<Rightarrow> string \<Rightarrow> real \<Rightarrow> decode_error + real" where
  "get_float b k d =
     (case b k of
        None \<Rightarrow> Inr d
      | Some (VFloat x) \<Rightarrow> Inr x
      | Some _ \<Rightarrow> Inl (MalformedBag WrongKind k))"

definition get_bool :: "bag \<Rightarrow> string \<Rightarrow> bool \<Rightarrow> decode_error + bool" where
  "get_bool b k d =
     (case b k of
        None \<Rightarrow> Inr d
      | Some (VBool x) \<Rightarrow> Inr x
      | Some _ \<Rightarrow> Inl (MalformedBag WrongKind k))"

definition get_int :: "bag \<Rightarrow> string \<Rightarrow> int \<Rightarrow> decode_error + int" where
  "get_int b k d =
     (case b k of
        None \<Rightarrow> Inr d
      | Some (VInt x) \<Rightarrow> Inr x
      | Some _ \<Rightarrow> Inl (MalformedBag WrongKind k))"

definition get_str :: "bag \<Rightarrow> string \<Rightarrow> string \<Rightarrow> decode_error + string" where
  "get_str b k d =
     (case b k of
        None \<Rightarrow> Inr d
      | Some (VStr x) \<Rightarrow> Inr x
      | Some _ \<Rightarrow> Inl (MalformedBag WrongKind k))"

text \<open>
  Modelled from the spec: the all-default record (the defaults of the table in section 3,
  which are the \<^verbatim>\<open>default=\<close> arguments of the property declarations in the source; the
  material's default is the empty string of the source).
\<close>

definition default_extras :: PhysicsExtras where
  "default_extras =
     \<lparr>body = NoBody, shape = NoShape, mass = 1, gravity_scale = 1, linear_damping = 0,
      angular_damping = 0, is_trigger = False, layer = 1, mask_field = 1, material = []\<rparr>"

text \<open>
  Modelled from the spec: \<^verbatim>\<open>decode\<close> (section 4.1), absent from the source. Every key is read
  on its own, with no cross-field validation and no range validation; the first malformed
  key, in the order of the table, is the one error reported.
\<close>

definition decode :: "bag \<Rightarrow> decode_error + PhysicsExtras" where
  "decode b =
     and_then (get_body b) (\<lambda>bo.
     and_then (get_shape b) (\<lambda>sh.
     and_then (get_float b ''physics_mass'' (mass default_extras)) (\<lambda>ma.
     and_then (get_float b ''physics_gravity_scale'' (gravity_scale default_extras)) (\<lambda>gs.
     and_then (get_float b ''physics_linear_damping'' (linear_damping default_extras)) (\<lambda>ld.
     and_then (get_float b ''physics_angular_damping'' (angular_damping default_extras)) (\<lambda>ad.
     and_then (get_bool b ''physics_is_trigger'' (is_trigger default_extras)) (\<lambda>tr.
     and_then (get_int b ''physics_layer'' (layer default_extras)) (\<lambda>la.
     and_then (get_int b ''physics_mask'' (mask_field default_extras)) (\<lambda>mk.
     and_then (get_str b ''physics_material'' (material default_extras)) (\<lambda>mt.
     Inr \<lparr>body = bo, shape = sh, mass = ma, gravity_scale = gs, linear_damping = ld,
          angular_damping = ad, is_trigger = tr, layer = la, mask_field = mk,
          material = mt\<rparr>))))))))))"

text \<open>
  Modelled from the spec: a structurally valid bag (section 4.1: no key among the ten holds a
  value of the wrong scalar kind, and an enum key holds a string of the table).
\<close>

definition is_float :: "prop_value option \<Rightarrow> bool" where
  "is_float v = (case v of None \<Rightarrow> True | Some (VFloat _) \<Rightarrow> True | Some _ \<Rightarrow> False)"

definition is_bool :: "prop_value option \<Rightarrow> bool" where
  "is_bool v = (case v of None \<Rightarrow> True | Some (VBool _) \<Rightarrow> True | Some _ \<Rightarrow> False)"

definition is_int :: "prop_value option \<Rightarrow> bool" where
  "is_int v = (case v of None \<Rightarrow> True | Some (VInt _) \<Rightarrow> True | Some _ \<Rightarrow> False)"

definition is_str :: "prop_value option \<Rightarrow> bool" where
  "is_str v = (case v of None \<Rightarrow> True | Some (VStr _) \<Rightarrow> True | Some _ \<Rightarrow> False)"

definition is_body :: "prop_value option \<Rightarrow> bool" where
  "is_body v =
     (case v of None \<Rightarrow> True | Some (VStr s) \<Rightarrow> parse_body s \<noteq> None | Some _ \<Rightarrow> False)"

definition is_shape :: "prop_value option \<Rightarrow> bool" where
  "is_shape v =
     (case v of None \<Rightarrow> True | Some (VStr s) \<Rightarrow> parse_shape s \<noteq> None | Some _ \<Rightarrow> False)"

definition structurally_valid :: "bag \<Rightarrow> bool" where
  "structurally_valid b =
     (is_body (b ''physics_body'') \<and> is_shape (b ''physics_shape'') \<and>
      is_float (b ''physics_mass'') \<and> is_float (b ''physics_gravity_scale'') \<and>
      is_float (b ''physics_linear_damping'') \<and> is_float (b ''physics_angular_damping'') \<and>
      is_bool (b ''physics_is_trigger'') \<and> is_int (b ''physics_layer'') \<and>
      is_int (b ''physics_mask'') \<and> is_str (b ''physics_material''))"

subsection \<open>Properties of \<^verbatim>\<open>sync_prop\<close>\<close>

lemma sync_prop_result:
  "sync_prop obj k v c = Inr (obj(k := (if c then Some v else None)))"
proof (cases c)
  case True
  then show ?thesis by (simp add: sync_prop_def setitem_def)
next
  case False
  show ?thesis
  proof (cases "obj k")
    case None
    then have "obj(k := None) = obj" by (simp add: fun_upd_idem)
    with False None show ?thesis by (simp add: sync_prop_def contains_def)
  next
    case (Some w)
    with False show ?thesis by (simp add: sync_prop_def contains_def delitem_def)
  qed
qed

lemma and_then_Inr: "and_then (Inr x) f = f x"
  by (simp add: and_then_def)

lemma sync_all_result:
  "sync_all self obj = Inr (obj
     (''physics_body'' := (if body_identifier (cat_phys_body self) \<noteq> ''NONE''
                           then Some (VStr (body_identifier (cat_phys_body self))) else None),
      ''physics_shape'' := (if shape_identifier (cat_phys_shape self) \<noteq> ''NONE''
                            then Some (VStr (shape_identifier (cat_phys_shape self))) else None),
      ''physics_mass'' := (if is_dynamic self then Some (VFloat (cat_phys_mass self)) else None),
      ''physics_gravity_scale'' :=
         (if is_dynamic self then Some (VFloat (cat_phys_gravity_scale self)) else None),
      ''physics_linear_damping'' :=
         (if is_dynamic self then Some (VFloat (cat_phys_linear_damping self)) else None),
      ''physics_angular_damping'' :=
         (if is_dynamic self then Some (VFloat (cat_phys_angular_damping self)) else None),
      ''physics_is_trigger'' :=
         (if has_physics self then Some (VBool (cat_phys_is_trigger self)) else None),
      ''physics_layer'' := (if has_physics self then Some (VInt (cat_phys_layer self)) else None),
      ''physics_mask'' := (if has_physics self then Some (VInt (cat_phys_mask self)) else None),
      ''physics_material'' :=
         (if has_physics self \<and> length (cat_phys_material self) > 0
          then Some (VStr (cat_phys_material self)) else None)))"
  by (simp only: sync_all_def sync_prop_result and_then_Inr)

lemma is_dynamic_iff: "is_dynamic self = (cat_phys_body self = Dynamic)"
  by (cases "cat_phys_body self") (simp_all add: is_dynamic_def)

lemma body_none_iff: "(body_identifier b \<noteq> ''NONE'') = (b \<noteq> NoBody)"
  by (cases b) simp_all

lemma shape_none_iff: "(shape_identifier s \<noteq> ''NONE'') = (s \<noteq> NoShape)"
  by (cases s) simp_all

lemma has_physics_iff:
  "has_physics self = (cat_phys_body self \<noteq> NoBody \<or> cat_phys_shape self \<noteq> NoShape)"
  by (simp add: has_physics_def body_none_iff shape_none_iff)

lemma parse_body_identifier: "b \<noteq> NoBody \<Longrightarrow> parse_body (body_identifier b) = Some b"
  by (cases b) (simp_all add: parse_body_def)

lemma parse_shape_identifier: "s \<noteq> NoShape \<Longrightarrow> parse_shape (shape_identifier s) = Some s"
  by (cases s) (simp_all add: parse_shape_def)

subsection \<open>The dictionary after the ten calls\<close>

lemma physics_keys_distinct: "distinct physics_keys"
  by (simp add: physics_keys_def)

lemma sync_all_lookup:
  "\<exists>obj'. sync_all self obj = Inr obj' \<and>
     obj' ''physics_body'' =
       (if cat_phys_body self \<noteq> NoBody
        then Some (VStr (body_identifier (cat_phys_body self))) else None) \<and>
     obj' ''physics_shape'' =
       (if cat_phys_shape self \<noteq> NoShape
        then Some (VStr (shape_identifier (cat_phys_shape self))) else None) \<and>
     obj' ''physics_mass'' =
       (if is_dynamic self then Some (VFloat (cat_phys_mass self)) else None) \<and>
     obj' ''physics_gravity_scale'' =
       (if is_dynamic self then Some (VFloat (cat_phys_gravity_scale self)) else None) \<and>
     obj' ''physics_linear_damping'' =
       (if is_dynamic self then Some (VFloat (cat_phys_linear_damping self)) else None) \<and>
     obj' ''physics_angular_damping'' =
       (if is_dynamic self then Some (VFloat (cat_phys_angular_damping self)) else None) \<and>
     obj' ''physics_is_trigger'' =
       (if has_physics self then Some (VBool (cat_phys_is_trigger self)) else None) \<and>
     obj' ''physics_layer'' =
       (if has_physics self then Some (VInt (cat_phys_layer self)) else None) \<and>
     obj' ''physics_mask'' =
       (if has_physics self then Some (VInt (cat_phys_mask self)) else None) \<and>
     obj' ''physics_material'' =
       (if has_physics self \<and> cat_phys_material self \<noteq> []
        then Some (VStr (cat_phys_material self)) else None) \<and>
     (\<forall>k. k \<notin> set physics_keys \<longrightarrow> obj' k = obj k)"
  unfolding sync_all_result
  by (simp add: body_none_iff shape_none_iff physics_keys_def)

lemma update_physics_props_on_object:
  "object context = Some obj \<Longrightarrow> sync_all self obj = Inr obj' \<Longrightarrow>
   update_physics_props self context = Inr (context\<lparr>object := Some obj'\<rparr>)"
  by (simp add: update_physics_props_def and_then_Inr)

subsection \<open>The keys of a dynamic body\<close>

text \<open>
  Claim C2. After an update of the active object, each of \<^verbatim>\<open>physics_mass\<close>,
  \<^verbatim>\<open>physics_gravity_scale\<close>, \<^verbatim>\<open>physics_linear_damping\<close> and \<^verbatim>\<open>physics_angular_damping\<close>
  holds the corresponding field of the settings if the body is \<open>Dynamic\<close>, and is absent
  otherwise, whatever the dictionary held before.
\<close>

theorem dynamic_keys_iff_dynamic:
  assumes "object context = Some obj"
  shows "\<exists>obj'. update_physics_props self context = Inr (context\<lparr>object := Some obj'\<rparr>) \<and>
     obj' ''physics_mass'' =
       (if cat_phys_body self = Dynamic then Some (VFloat (cat_phys_mass self)) else None) \<and>
     obj' ''physics_gravity_scale'' =
       (if cat_phys_body self = Dynamic
        then Some (VFloat (cat_phys_gravity_scale self)) else None) \<and>
     obj' ''physics_linear_damping'' =
       (if cat_phys_body self = Dynamic
        then Some (VFloat (cat_phys_linear_damping self)) else None) \<and>
     obj' ''physics_angular_damping'' =
       (if cat_phys_body self = Dynamic
        then Some (VFloat (cat_phys_angular_damping self)) else None)"
proof -
  from sync_all_lookup [of self obj] obtain obj' where
    r: "sync_all self obj = Inr obj'" and
    m: "obj' ''physics_mass'' =
          (if is_dynamic self then Some (VFloat (cat_phys_mass self)) else None)" and
    g: "obj' ''physics_gravity_scale'' =
          (if is_dynamic self then Some (VFloat (cat_phys_gravity_scale self)) else None)" and
    l: "obj' ''physics_linear_damping'' =
          (if is_dynamic self then Some (VFloat (cat_phys_linear_damping self)) else None)" and
    a: "obj' ''physics_angular_damping'' =
          (if is_dynamic self then Some (VFloat (cat_phys_angular_damping self)) else None)"
    by blast
  from assms r have "update_physics_props self context = Inr (context\<lparr>object := Some obj'\<rparr>)"
    by (rule update_physics_props_on_object)
  with m g l a show ?thesis
    unfolding is_dynamic_iff by blast
qed

text \<open>
  A static body with a sphere shape and mass 99, on an object that still carries a stale
  \<^verbatim>\<open>physics_mass\<close>: none of the four keys remains.
\<close>

theorem dynamic_keys_static_sphere:
  "\<exists>obj'. update_physics_props
       \<lparr>cat_phys_body = Static, cat_phys_shape = Sphere, cat_phys_mass = 99,
        cat_phys_gravity_scale = 1, cat_phys_linear_damping = 0, cat_phys_angular_damping = 0,
        cat_phys_is_trigger = False, cat_phys_layer = 1, cat_phys_mask = 1,
        cat_phys_material = []\<rparr>
       \<lparr>object = Some [''physics_mass'' \<mapsto> VFloat 5]\<rparr> = Inr \<lparr>object = Some obj'\<rparr> \<and>
     obj' ''physics_mass'' = None \<and> obj' ''physics_gravity_scale'' = None \<and>
     obj' ''physics_linear_damping'' = None \<and> obj' ''physics_angular_damping'' = None"
  using dynamic_keys_iff_dynamic
    [of "\<lparr>object = Some [''physics_mass'' \<mapsto> VFloat 5]\<rparr>" "[''physics_mass'' \<mapsto> VFloat 5]"
        "\<lparr>cat_phys_body = Static, cat_phys_shape = Sphere, cat_phys_mass = 99,
        cat_phys_gravity_scale = 1, cat_phys_linear_damping = 0, cat_phys_angular_damping = 0,
        cat_phys_is_trigger = False, cat_phys_layer = 1, cat_phys_mask = 1,
        cat_phys_material = []\<rparr>"]
  by simp

subsection \<open>The keys of every physics object\<close>

text \<open>
  Claim C5. After an update of the active object, each of \<^verbatim>\<open>physics_is_trigger\<close>,
  \<^verbatim>\<open>physics_layer\<close> and \<^verbatim>\<open>physics_mask\<close> holds the corresponding field of the settings if
  the body or the shape is not \<^verbatim>\<open>NONE\<close>, and is absent otherwise.
\<close>

theorem collision_keys_iff_has_physics:
  assumes "object context = Some obj"
  shows "\<exists>obj'. update_physics_props self context = Inr (context\<lparr>object := Some obj'\<rparr>) \<and>
     obj' ''physics_is_trigger'' =
       (if cat_phys_body self \<noteq> NoBody \<or> cat_phys_shape self \<noteq> NoShape
        then Some (VBool (cat_phys_is_trigger self)) else None) \<and>
     obj' ''physics_layer'' =
       (if cat_phys_body self \<noteq> NoBody \<or> cat_phys_shape self \<noteq> NoShape
        then Some (VInt (cat_phys_layer self)) else None) \<and>
     obj' ''physics_mask'' =
       (if cat_phys_body self \<noteq> NoBody \<or> cat_phys_shape self \<noteq> NoShape
        then Some (VInt (cat_phys_mask self)) else None)"
proof -
  from sync_all_lookup [of self obj] obtain obj' where
    r: "sync_all self obj = Inr obj'" and
    t: "obj' ''physics_is_trigger'' =
          (if has_physics self then Some (VBool (cat_phys_is_trigger self)) else None)" and
    l: "obj' ''physics_layer'' =
          (if has_physics self then Some (VInt (cat_phys_layer self)) else None)" and
    m: "obj' ''physics_mask'' =
          (if has_physics self then Some (VInt (cat_phys_mask self)) else None)"
    by blast
  from assms r have "update_physics_props self context = Inr (context\<lparr>object := Some obj'\<rparr>)"
    by (rule update_physics_props_on_object)
  with t l m show ?thesis
    unfolding has_physics_iff by blast
qed

text \<open>A collider with a shape and no body: the three keys are written.\<close>

theorem collision_keys_shape_only:
  "\<exists>obj'. update_physics_props
       \<lparr>cat_phys_body = NoBody, cat_phys_shape = Mesh, cat_phys_mass = 1,
        cat_phys_gravity_scale = 1, cat_phys_linear_damping = 0, cat_phys_angular_damping = 0,
        cat_phys_is_trigger = True, cat_phys_layer = 2, cat_phys_mask = 3,
        cat_phys_material = []\<rparr>
       \<lparr>object = Some Map.empty\<rparr> = Inr \<lparr>object = Some obj'\<rparr> \<and>
     obj' ''physics_is_trigger'' = Some (VBool True) \<and>
     obj' ''physics_layer'' = Some (VInt 2) \<and> obj' ''physics_mask'' = Some (VInt 3)"
  using collision_keys_iff_has_physics
    [of "\<lparr>object = Some Map.empty\<rparr>" "Map.empty"
        "\<lparr>cat_phys_body = NoBody, cat_phys_shape = Mesh, cat_phys_mass = 1,
        cat_phys_gravity_scale = 1, cat_phys_linear_damping = 0, cat_phys_angular_damping = 0,
        cat_phys_is_trigger = True, cat_phys_layer = 2, cat_phys_mask = 3,
        cat_phys_material = []\<rparr>"]
  by simp

subsection \<open>The material key\<close>

text \<open>
  Claim C6. After an update of the active object, \<^verbatim>\<open>physics_material\<close> holds the material
  string if the body or the shape is not \<^verbatim>\<open>NONE\<close> and the string is not empty, and is absent
  otherwise.
\<close>

theorem material_key_iff_nonempty:
  assumes "object context = Some obj"
  shows "\<exists>obj'. update_physics_props self context = Inr (context\<lparr>object := Some obj'\<rparr>) \<and>
     obj' ''physics_material'' =
       (if (cat_phys_body self \<noteq> NoBody \<or> cat_phys_shape self \<noteq> NoShape) \<and>
           cat_phys_material self \<noteq> ''''
        then Some (VStr (cat_phys_material self)) else None)"
proof -
  from sync_all_lookup [of self obj] obtain obj' where
    r: "sync_all self obj = Inr obj'" and
    m: "obj' ''physics_material'' =
          (if has_physics self \<and> cat_phys_material self \<noteq> []
           then Some (VStr (cat_phys_material self)) else None)"
    by blast
  from assms r have "update_physics_props self context = Inr (context\<lparr>object := Some obj'\<rparr>)"
    by (rule update_physics_props_on_object)
  with m show ?thesis
    unfolding has_physics_iff by blast
qed

text \<open>
  A static box with the empty material, on an object that still carries the material
  \<^verbatim>\<open>wood\<close>: the key is removed. The same box with the material \<^verbatim>\<open>wood\<close>: the key holds
  \<^verbatim>\<open>wood\<close>.
\<close>

theorem material_key_empty_and_wood:
  "(\<exists>obj'. update_physics_props
       \<lparr>cat_phys_body = Static, cat_phys_shape = Box, cat_phys_mass = 1,
        cat_phys_gravity_scale = 1, cat_phys_linear_damping = 0, cat_phys_angular_damping = 0,
        cat_phys_is_trigger = False, cat_phys_layer = 1, cat_phys_mask = 1,
        cat_phys_material = ''''\<rparr>
       \<lparr>object = Some [''physics_material'' \<mapsto> VStr ''wood'']\<rparr> = Inr \<lparr>object = Some obj'\<rparr> \<and>
     obj' ''physics_material'' = None) \<and>
   (\<exists>obj'. update_physics_props
       \<lparr>cat_phys_body = Static, cat_phys_shape = Box, cat_phys_mass = 1,
        cat_phys_gravity_scale = 1, cat_phys_linear_damping = 0, cat_phys_angular_damping = 0,
        cat_phys_is_trigger = False, cat_phys_layer = 1, cat_phys_mask = 1,
        cat_phys_material = ''wood''\<rparr>
       \<lparr>object = Some Map.empty\<rparr> = Inr \<lparr>object = Some obj'\<rparr> \<and>
     obj' ''physics_material'' = Some (VStr ''wood''))"
  using material_key_iff_nonempty
    [of "\<lparr>object = Some [''physics_material'' \<mapsto> VStr ''wood'']\<rparr>"
        "[''physics_material'' \<mapsto> VStr ''wood'']"
        "\<lparr>cat_phys_body = Static, cat_phys_shape = Box, cat_phys_mass = 1,
        cat_phys_gravity_scale = 1, cat_phys_linear_damping = 0, cat_phys_angular_damping = 0,
        cat_phys_is_trigger = False, cat_phys_layer = 1, cat_phys_mask = 1,
        cat_phys_material = ''''\<rparr>"]
    material_key_iff_nonempty
    [of "\<lparr>object = Some Map.empty\<rparr>" "Map.empty"
        "\<lparr>cat_phys_body = Static, cat_phys_shape = Box, cat_phys_mass = 1,
        cat_phys_gravity_scale = 1, cat_phys_linear_damping = 0, cat_phys_angular_damping = 0,
        cat_phys_is_trigger = False, cat_phys_layer = 1, cat_phys_mask = 1,
        cat_phys_material = ''wood''\<rparr>"]
  by simp

subsection \<open>The frame of the update\<close>

text \<open>
  Claim C9. An update of the active object changes no key of its dictionary other than the
  ten keys of \<open>physics_keys\<close>, and nothing of the context other than that dictionary.
\<close>

theorem other_keys_unchanged:
  assumes "object context = Some obj" and "k \<notin> set physics_keys"
  shows "\<exists>obj'. update_physics_props self context = Inr (context\<lparr>object := Some obj'\<rparr>) \<and>
     obj' k = obj k"
proof -
  from sync_all_lookup [of self obj] obtain obj' where
    r: "sync_all self obj = Inr obj'" and
    f: "\<forall>k. k \<notin> set physics_keys \<longrightarrow> obj' k = obj k"
    by blast
  from assms(1) r have "update_physics_props self context = Inr (context\<lparr>object := Some obj'\<rparr>)"
    by (rule update_physics_props_on_object)
  with f assms(2) show ?thesis by blast
qed

text \<open>An object named \<^verbatim>\<open>crate\<close> keeps its \<^verbatim>\<open>name\<close> property.\<close>

theorem other_keys_unchanged_name:
  "''name'' \<notin> set physics_keys \<and>
   (\<exists>obj'. update_physics_props
       \<lparr>cat_phys_body = Dynamic, cat_phys_shape = Box, cat_phys_mass = 2,
        cat_phys_gravity_scale = 1, cat_phys_linear_damping = 0, cat_phys_angular_damping = 0,
        cat_phys_is_trigger = False, cat_phys_layer = 1, cat_phys_mask = 1,
        cat_phys_material = ''''\<rparr>
       \<lparr>object = Some [''name'' \<mapsto> VStr ''crate'', ''physics_mass'' \<mapsto> VFloat 5]\<rparr>
         = Inr \<lparr>object = Some obj'\<rparr> \<and>
     obj' ''name'' = Some (VStr ''crate''))"
proof -
  have k: "''name'' \<notin> set physics_keys"
    by (simp add: physics_keys_def)
  have o: "object \<lparr>object = Some [''name'' \<mapsto> VStr ''crate'', ''physics_mass'' \<mapsto> VFloat 5]\<rparr>
             = Some [''name'' \<mapsto> VStr ''crate'', ''physics_mass'' \<mapsto> VFloat 5]"
    by simp
  from other_keys_unchanged [OF o k] k show ?thesis by simp
qed

subsection \<open>No active object, and deleting an absent key\<close>

text \<open>
  Claim C10. Without an active object \<^verbatim>\<open>update_physics_props\<close> returns without an exception
  and leaves the context as it was. \<^verbatim>\<open>sync_prop\<close> with a false condition never raises: it
  returns the dictionary without the key, which is the dictionary itself when the key was
  already absent, although \<^verbatim>\<open>del\<close> alone would raise \<^verbatim>\<open>KeyError\<close> there.
\<close>

theorem no_object_and_guarded_delete:
  "(object context = None \<longrightarrow> update_physics_props self context = Inr context) \<and>
   sync_prop obj k v False = Inr (obj(k := None)) \<and>
   (obj k = None \<longrightarrow> delitem obj k = Inl (KeyError k) \<and> sync_prop obj k v False = Inr obj)"
proof (intro conjI impI)
  assume "object context = None"
  then show "update_physics_props self context = Inr context"
    by (simp add: update_physics_props_def)
next
  show "sync_prop obj k v False = Inr (obj(k := None))"
    by (simp add: sync_prop_result)
next
  assume "obj k = None"
  then show "delitem obj k = Inl (KeyError k)"
    by (simp add: delitem_def)
next
  assume "obj k = None"
  then show "sync_prop obj k v False = Inr obj"
    by (simp add: sync_prop_def contains_def)
qed

text \<open>No active object; and \<^verbatim>\<open>physics_mass\<close> removed from the empty dictionary.\<close>

theorem no_object_and_guarded_delete_example:
  "update_physics_props
       \<lparr>cat_phys_body = Dynamic, cat_phys_shape = Box, cat_phys_mass = 2,
        cat_phys_gravity_scale = 1, cat_phys_linear_damping = 0, cat_phys_angular_damping = 0,
        cat_phys_is_trigger = False, cat_phys_layer = 1, cat_phys_mask = 1,
        cat_phys_material = ''''\<rparr> \<lparr>object = None\<rparr> = Inr \<lparr>object = None\<rparr> \<and>
   delitem Map.empty ''physics_mass'' = Inl (KeyError ''physics_mass'') \<and>
   sync_prop Map.empty ''physics_mass'' (VFloat 1) False = Inr Map.empty"
  using no_object_and_guarded_delete
    [of "\<lparr>object = None\<rparr>"
        "\<lparr>cat_phys_body = Dynamic, cat_phys_shape = Box, cat_phys_mass = 2,
        cat_phys_gravity_scale = 1, cat_phys_linear_damping = 0, cat_phys_angular_damping = 0,
        cat_phys_is_trigger = False, cat_phys_layer = 1, cat_phys_mask = 1,
        cat_phys_material = ''''\<rparr>" "Map.empty" "''physics_mass''" "VFloat 1"]
  by simp

subsection \<open>Keys that are not written are removed\<close>

text \<open>
  Claim C4. After an update of the active object, every one of the ten keys whose condition
  is false for the current settings is absent from the dictionary, whatever the dictionary
  held before: \<^verbatim>\<open>physics_body\<close> when the body is \<^verbatim>\<open>NONE\<close>, \<^verbatim>\<open>physics_shape\<close> when the shape
  is \<^verbatim>\<open>NONE\<close>, the four dynamics keys when the body is not dynamic, the three collision keys
  when body and shape are both \<^verbatim>\<open>NONE\<close>, and \<^verbatim>\<open>physics_material\<close> when body and shape are
  both \<^verbatim>\<open>NONE\<close> or the material is empty.
\<close>

theorem unemitted_keys_removed:
  assumes "object context = Some obj"
  shows "\<exists>obj'. update_physics_props self context = Inr (context\<lparr>object := Some obj'\<rparr>) \<and>
     (cat_phys_body self = NoBody \<longrightarrow> obj' ''physics_body'' = None) \<and>
     (cat_phys_shape self = NoShape \<longrightarrow> obj' ''physics_shape'' = None) \<and>
     (cat_phys_body self \<noteq> Dynamic \<longrightarrow>
        obj' ''physics_mass'' = None \<and> obj' ''physics_gravity_scale'' = None \<and>
        obj' ''physics_linear_damping'' = None \<and> obj' ''physics_angular_damping'' = None) \<and>
     (cat_phys_body self = NoBody \<and> cat_phys_shape self = NoShape \<longrightarrow>
        obj' ''physics_is_trigger'' = None \<and> obj' ''physics_layer'' = None \<and>
        obj' ''physics_mask'' = None) \<and>
     ((cat_phys_body self = NoBody \<and> cat_phys_shape self = NoShape) \<or>
        cat_phys_material self = '''' \<longrightarrow> obj' ''physics_material'' = None)"
proof -
  from sync_all_lookup [of self obj] obtain obj' where
    r: "sync_all self obj = Inr obj'" and
    b: "obj' ''physics_body'' =
       (if cat_phys_body self \<noteq> NoBody
        then Some (VStr (body_identifier (cat_phys_body self))) else None)" and
    s: "obj' ''physics_shape'' =
       (if cat_phys_shape self \<noteq> NoShape
        then Some (VStr (shape_identifier (cat_phys_shape self))) else None)" and
    m: "obj' ''physics_mass'' =
          (if is_dynamic self then Some (VFloat (cat_phys_mass self)) else None)" and
    g: "obj' ''physics_gravity_scale'' =
          (if is_dynamic self then Some (VFloat (cat_phys_gravity_scale self)) else None)" and
    l: "obj' ''physics_linear_damping'' =
          (if is_dynamic self then Some (VFloat (cat_phys_linear_damping self)) else None)" and
    a: "obj' ''physics_angular_damping'' =
          (if is_dynamic self then Some (VFloat (cat_phys_angular_damping self)) else None)" and
    t: "obj' ''physics_is_trigger'' =
          (if has_physics self then Some (VBool (cat_phys_is_trigger self)) else None)" and
    y: "obj' ''physics_layer'' =
          (if has_physics self then Some (VInt (cat_phys_layer self)) else None)" and
    k: "obj' ''physics_mask'' =
          (if has_physics self then Some (VInt (cat_phys_mask self)) else None)" and
    w: "obj' ''physics_material'' =
          (if has_physics self \<and> cat_phys_material self \<noteq> []
           then Some (VStr (cat_phys_material self)) else None)"
    by blast
  from assms r have u: "update_physics_props self context = Inr (context\<lparr>object := Some obj'\<rparr>)"
    by (rule update_physics_props_on_object)
  have 1: "cat_phys_body self = NoBody \<longrightarrow> obj' ''physics_body'' = None"
    using b by simp
  have 2: "cat_phys_shape self = NoShape \<longrightarrow> obj' ''physics_shape'' = None"
    using s by simp
  have 3: "cat_phys_body self \<noteq> Dynamic \<longrightarrow>
        obj' ''physics_mass'' = None \<and> obj' ''physics_gravity_scale'' = None \<and>
        obj' ''physics_linear_damping'' = None \<and> obj' ''physics_angular_damping'' = None"
    using m g l a by (simp add: is_dynamic_iff)
  have 4: "cat_phys_body self = NoBody \<and> cat_phys_shape self = NoShape \<longrightarrow>
        obj' ''physics_is_trigger'' = None \<and> obj' ''physics_layer'' = None \<and>
        obj' ''physics_mask'' = None"
    using t y k by (simp add: has_physics_iff)
  have 5: "(cat_phys_body self = NoBody \<and> cat_phys_shape self = NoShape) \<or>
        cat_phys_material self = '''' \<longrightarrow> obj' ''physics_material'' = None"
    using w by (auto simp add: has_physics_iff)
  from u 1 2 3 4 5 show ?thesis by blast
qed

text \<open>
  An object that was a dynamic wooden box becomes a static body without a shape: the stale
  shape, dynamics and material keys are gone.
\<close>

theorem unemitted_keys_removed_stale:
  "\<exists>obj'. update_physics_props
       \<lparr>cat_phys_body = Static, cat_phys_shape = NoShape, cat_phys_mass = 2,
        cat_phys_gravity_scale = 1, cat_phys_linear_damping = 0, cat_phys_angular_damping = 0,
        cat_phys_is_trigger = False, cat_phys_layer = 1, cat_phys_mask = 1,
        cat_phys_material = ''''\<rparr>
       \<lparr>object = Some [''physics_body'' \<mapsto> VStr ''dynamic'', ''physics_shape'' \<mapsto> VStr ''box'',
          ''physics_mass'' \<mapsto> VFloat 2, ''physics_gravity_scale'' \<mapsto> VFloat 1,
          ''physics_linear_damping'' \<mapsto> VFloat 0, ''physics_angular_damping'' \<mapsto> VFloat 0,
          ''physics_material'' \<mapsto> VStr ''wood'']\<rparr> = Inr \<lparr>object = Some obj'\<rparr> \<and>
     obj' ''physics_shape'' = None \<and>
     obj' ''physics_mass'' = None \<and> obj' ''physics_gravity_scale'' = None \<and>
     obj' ''physics_linear_damping'' = None \<and> obj' ''physics_angular_damping'' = None \<and>
     obj' ''physics_material'' = None"
  using unemitted_keys_removed
    [of "\<lparr>object = Some [''physics_body'' \<mapsto> VStr ''dynamic'', ''physics_shape'' \<mapsto> VStr ''box'',
          ''physics_mass'' \<mapsto> VFloat 2, ''physics_gravity_scale'' \<mapsto> VFloat 1,
          ''physics_linear_damping'' \<mapsto> VFloat 0, ''physics_angular_damping'' \<mapsto> VFloat 0,
          ''physics_material'' \<mapsto> VStr ''wood'']\<rparr>"
        "[''physics_body'' \<mapsto> VStr ''dynamic'', ''physics_shape'' \<mapsto> VStr ''box'',
          ''physics_mass'' \<mapsto> VFloat 2, ''physics_gravity_scale'' \<mapsto> VFloat 1,
          ''physics_linear_damping'' \<mapsto> VFloat 0, ''physics_angular_damping'' \<mapsto> VFloat 0,
          ''physics_material'' \<mapsto> VStr ''wood'']"
        "\<lparr>cat_phys_body = Static, cat_phys_shape = NoShape, cat_phys_mass = 2,
        cat_phys_gravity_scale = 1, cat_phys_linear_damping = 0, cat_phys_angular_damping = 0,
        cat_phys_is_trigger = False, cat_phys_layer = 1, cat_phys_mask = 1,
        cat_phys_material = ''''\<rparr>"]
  by simp

subsection \<open>Neither body nor shape\<close>

text \<open>
  Claim C3. The string \<^verbatim>\<open>NONE\<close> is never the value of \<^verbatim>\<open>physics_body\<close> or \<^verbatim>\<open>physics_shape\<close>
  after an update. When body and shape are both \<^verbatim>\<open>NONE\<close>, none of the ten keys is present
  after the update, whatever the other fields of the settings are; a dictionary that held
  nothing but physics keys is then empty.
\<close>

theorem none_none_clears_physics_keys:
  assumes "object context = Some obj"
  shows "\<exists>obj'. update_physics_props self context = Inr (context\<lparr>object := Some obj'\<rparr>) \<and>
     obj' ''physics_body'' \<noteq> Some (VStr ''NONE'') \<and>
     obj' ''physics_shape'' \<noteq> Some (VStr ''NONE'') \<and>
     (cat_phys_body self = NoBody \<and> cat_phys_shape self = NoShape \<longrightarrow>
        (\<forall>k \<in> set physics_keys. obj' k = None) \<and>
        (dom obj \<subseteq> set physics_keys \<longrightarrow> obj' = Map.empty))"
proof -
  from sync_all_lookup [of self obj] obtain obj' where
    r: "sync_all self obj = Inr obj'" and
    b: "obj' ''physics_body'' =
       (if cat_phys_body self \<noteq> NoBody
        then Some (VStr (body_identifier (cat_phys_body self))) else None)" and
    s: "obj' ''physics_shape'' =
       (if cat_phys_shape self \<noteq> NoShape
        then Some (VStr (shape_identifier (cat_phys_shape self))) else None)" and
    m: "obj' ''physics_mass'' =
          (if is_dynamic self then Some (VFloat (cat_phys_mass self)) else None)" and
    g: "obj' ''physics_gravity_scale'' =
          (if is_dynamic self then Some (VFloat (cat_phys_gravity_scale self)) else None)" and
    l: "obj' ''physics_linear_damping'' =
          (if is_dynamic self then Some (VFloat (cat_phys_linear_damping self)) else None)" and
    a: "obj' ''physics_angular_damping'' =
          (if is_dynamic self then Some (VFloat (cat_phys_angular_damping self)) else None)" and
    t: "obj' ''physics_is_trigger'' =
          (if has_physics self then Some (VBool (cat_phys_is_trigger self)) else None)" and
    y: "obj' ''physics_layer'' =
          (if has_physics self then Some (VInt (cat_phys_layer self)) else None)" and
    k: "obj' ''physics_mask'' =
          (if has_physics self then Some (VInt (cat_phys_mask self)) else None)" and
    w: "obj' ''physics_material'' =
          (if has_physics self \<and> cat_phys_material self \<noteq> []
           then Some (VStr (cat_phys_material self)) else None)" and
    f: "\<forall>k. k \<notin> set physics_keys \<longrightarrow> obj' k = obj k"
    by blast
  from assms r have u: "update_physics_props self context = Inr (context\<lparr>object := Some obj'\<rparr>)"
    by (rule update_physics_props_on_object)
  have nb: "obj' ''physics_body'' \<noteq> Some (VStr ''NONE'')"
    using b by (cases "cat_phys_body self") simp_all
  have ns: "obj' ''physics_shape'' \<noteq> Some (VStr ''NONE'')"
    using s by (cases "cat_phys_shape self") simp_all
  have e: "(\<forall>k \<in> set physics_keys. obj' k = None) \<and>
        (dom obj \<subseteq> set physics_keys \<longrightarrow> obj' = Map.empty)"
    if nn: "cat_phys_body self = NoBody \<and> cat_phys_shape self = NoShape"
  proof -
    have d: "\<not> is_dynamic self" and h: "\<not> has_physics self"
      using nn by (simp_all add: is_dynamic_iff has_physics_iff)
    have c: "\<forall>k \<in> set physics_keys. obj' k = None"
      using b s m g l a t y k w nn d h by (simp add: physics_keys_def)
    have "obj' = Map.empty" if sub: "dom obj \<subseteq> set physics_keys"
    proof
      fix x
      show "obj' x = None"
      proof (cases "x \<in> set physics_keys")
        case True
        with c show ?thesis by blast
      next
        case False
        with sub have "obj x = None" by blast
        with f False show ?thesis by simp
      qed
    qed
    with c show ?thesis by blast
  qed
  from u nb ns e show ?thesis by blast
qed

text \<open>
  Body and shape \<^verbatim>\<open>NONE\<close> with a mass of 99 and the material \<^verbatim>\<open>wood\<close>, on an object that was
  a dynamic body: the dictionary is empty afterwards.
\<close>

theorem none_none_clears_example:
  "\<exists>obj'. update_physics_props
       \<lparr>cat_phys_body = NoBody, cat_phys_shape = NoShape, cat_phys_mass = 99,
        cat_phys_gravity_scale = 3, cat_phys_linear_damping = 4, cat_phys_angular_damping = 5,
        cat_phys_is_trigger = True, cat_phys_layer = 7, cat_phys_mask = 8,
        cat_phys_material = ''wood''\<rparr>
       \<lparr>object = Some [''physics_body'' \<mapsto> VStr ''dynamic'', ''physics_mass'' \<mapsto> VFloat 2]\<rparr>
         = Inr \<lparr>object = Some obj'\<rparr> \<and>
     obj' = Map.empty"
proof -
  have d: "dom [''physics_body'' \<mapsto> VStr ''dynamic'', ''physics_mass'' \<mapsto> VFloat 2]
             \<subseteq> set physics_keys"
    by (simp add: physics_keys_def)
  show ?thesis
    using d none_none_clears_physics_keys
      [of "\<lparr>object = Some [''physics_body'' \<mapsto> VStr ''dynamic'', ''physics_mass'' \<mapsto> VFloat 2]\<rparr>"
        "[''physics_body'' \<mapsto> VStr ''dynamic'', ''physics_mass'' \<mapsto> VFloat 2]"
        "\<lparr>cat_phys_body = NoBody, cat_phys_shape = NoShape, cat_phys_mass = 99,
        cat_phys_gravity_scale = 3, cat_phys_linear_damping = 4, cat_phys_angular_damping = 5,
        cat_phys_is_trigger = True, cat_phys_layer = 7, cat_phys_mask = 8,
        cat_phys_material = ''wood''\<rparr>"]
    by simp
qed

subsection \<open>Reading back what the update wrote\<close>

lemma get_body_written:
  "b ''physics_body'' = (if x \<noteq> NoBody then Some (VStr (body_identifier x)) else None) \<Longrightarrow>
   get_body b = Inr x"
  by (cases x) (simp_all add: get_body_def parse_body_def)

lemma get_shape_written:
  "b ''physics_shape'' = (if x \<noteq> NoShape then Some (VStr (shape_identifier x)) else None) \<Longrightarrow>
   get_shape b = Inr x"
  by (cases x) (simp_all add: get_shape_def parse_shape_def)

text \<open>
  Claim C1. Reading the dictionary of the active object after an update succeeds, and the
  record read agrees with the settings on every meaningful field and holds the default on
  every other field: body and shape always; mass, gravity scale and the two dampings when the
  body is dynamic; trigger flag, layer and mask when body or shape is not \<^verbatim>\<open>NONE\<close>; the
  material when body or shape is not \<^verbatim>\<open>NONE\<close> and the string is not empty. This holds for
  every value of the settings (the range constraints of the fields are not needed) and for
  every dictionary the object held before.
\<close>

theorem decode_update_round_trip:
  assumes "object context = Some obj"
  shows "\<exists>obj' r. update_physics_props self context = Inr (context\<lparr>object := Some obj'\<rparr>) \<and>
     decode obj' = Inr r \<and>
     body r = cat_phys_body self \<and>
     shape r = cat_phys_shape self \<and>
     mass r = (if cat_phys_body self = Dynamic then cat_phys_mass self
               else mass default_extras) \<and>
     gravity_scale r = (if cat_phys_body self = Dynamic then cat_phys_gravity_scale self
                        else gravity_scale default_extras) \<and>
     linear_damping r = (if cat_phys_body self = Dynamic then cat_phys_linear_damping self
                         else linear_damping default_extras) \<and>
     angular_damping r = (if cat_phys_body self = Dynamic then cat_phys_angular_damping self
                          else angular_damping default_extras) \<and>
     is_trigger r = (if cat_phys_body self \<noteq> NoBody \<or> cat_phys_shape self \<noteq> NoShape
                     then cat_phys_is_trigger self else is_trigger default_extras) \<and>
     layer r = (if cat_phys_body self \<noteq> NoBody \<or> cat_phys_shape self \<noteq> NoShape
                then cat_phys_layer self else layer default_extras) \<and>
     mask_field r = (if cat_phys_body self \<noteq> NoBody \<or> cat_phys_shape self \<noteq> NoShape
                     then cat_phys_mask self else mask_field default_extras) \<and>
     material r = (if (cat_phys_body self \<noteq> NoBody \<or> cat_phys_shape self \<noteq> NoShape) \<and>
                      cat_phys_material self \<noteq> ''''
                   then cat_phys_material self else material default_extras)"
proof -
  from sync_all_lookup [of self obj] obtain obj' where
    r: "sync_all self obj = Inr obj'" and
    b: "obj' ''physics_body'' =
       (if cat_phys_body self \<noteq> NoBody
        then Some (VStr (body_identifier (cat_phys_body self))) else None)" and
    s: "obj' ''physics_shape'' =
       (if cat_phys_shape self \<noteq> NoShape
        then Some (VStr (shape_identifier (cat_phys_shape self))) else None)" and
    m: "obj' ''physics_mass'' =
          (if is_dynamic self then Some (VFloat (cat_phys_mass self)) else None)" and
    g: "obj' ''physics_gravity_scale'' =
          (if is_dynamic self then Some (VFloat (cat_phys_gravity_scale self)) else None)" and
    l: "obj' ''physics_linear_damping'' =
          (if is_dynamic self then Some (VFloat (cat_phys_linear_damping self)) else None)" and
    a: "obj' ''physics_angular_damping'' =
          (if is_dynamic self then Some (VFloat (cat_phys_angular_damping self)) else None)" and
    t: "obj' ''physics_is_trigger'' =
          (if has_physics self then Some (VBool (cat_phys_is_trigger self)) else None)" and
    y: "obj' ''physics_layer'' =
          (if has_physics self then Some (VInt (cat_phys_layer self)) else None)" and
    k: "obj' ''physics_mask'' =
          (if has_physics self then Some (VInt (cat_phys_mask self)) else None)" and
    w: "obj' ''physics_material'' =
          (if has_physics self \<and> cat_phys_material self \<noteq> []
           then Some (VStr (cat_phys_material self)) else None)"
    by blast
  from assms r have u: "update_physics_props self context = Inr (context\<lparr>object := Some obj'\<rparr>)"
    by (rule update_physics_props_on_object)
  define r where "r =
     \<lparr>body = cat_phys_body self, shape = cat_phys_shape self,
      mass = (if is_dynamic self then cat_phys_mass self else mass default_extras),
      gravity_scale = (if is_dynamic self then cat_phys_gravity_scale self
                       else gravity_scale default_extras),
      linear_damping = (if is_dynamic self then cat_phys_linear_damping self
                        else linear_damping default_extras),
      angular_damping = (if is_dynamic self then cat_phys_angular_damping self
                         else angular_damping default_extras),
      is_trigger = (if has_physics self then cat_phys_is_trigger self
                    else is_trigger default_extras),
      layer = (if has_physics self then cat_phys_layer self else layer default_extras),
      mask_field = (if has_physics self then cat_phys_mask self
                    else mask_field default_extras),
      material = (if has_physics self \<and> cat_phys_material self \<noteq> []
                  then cat_phys_material self else material default_extras)\<rparr>"
  have gb: "get_body obj' = Inr (cat_phys_body self)"
    using b by (rule get_body_written)
  have gs: "get_shape obj' = Inr (cat_phys_shape self)"
    using s by (rule get_shape_written)
  have gm: "get_float obj' ''physics_mass'' (mass default_extras) =
      Inr (if is_dynamic self then cat_phys_mass self else mass default_extras)"
    using m by (simp add: get_float_def)
  have gg: "get_float obj' ''physics_gravity_scale'' (gravity_scale default_extras) =
      Inr (if is_dynamic self then cat_phys_gravity_scale self
           else gravity_scale default_extras)"
    using g by (simp add: get_float_def)
  have gl: "get_float obj' ''physics_linear_damping'' (linear_damping default_extras) =
      Inr (if is_dynamic self then cat_phys_linear_damping self
           else linear_damping default_extras)"
    using l by (simp add: get_float_def)
  have ga: "get_float obj' ''physics_angular_damping'' (angular_damping default_extras) =
      Inr (if is_dynamic self then cat_phys_angular_damping self
           else angular_damping default_extras)"
    using a by (simp add: get_float_def)
  have gt: "get_bool obj' ''physics_is_trigger'' (is_trigger default_extras) =
      Inr (if has_physics self then cat_phys_is_trigger self else is_trigger default_extras)"
    using t by (simp add: get_bool_def)
  have gy: "get_int obj' ''physics_layer'' (layer default_extras) =
      Inr (if has_physics self then cat_phys_layer self else layer default_extras)"
    using y by (simp add: get_int_def)
  have gk: "get_int obj' ''physics_mask'' (mask_field default_extras) =
      Inr (if has_physics self then cat_phys_mask self else mask_field default_extras)"
    using k by (simp add: get_int_def)
  have gw: "get_str obj' ''physics_material'' (material default_extras) =
      Inr (if has_physics self \<and> cat_phys_material self \<noteq> []
           then cat_phys_material self else material default_extras)"
    using w by (simp add: get_str_def)
  have d: "decode obj' = Inr r"
    unfolding decode_def r_def gb gs gm gg gl ga gt gy gk gw and_then_Inr ..
  have f: "body r = cat_phys_body self \<and>
     shape r = cat_phys_shape self \<and>
     mass r = (if cat_phys_body self = Dynamic then cat_phys_mass self
               else mass default_extras) \<and>
     gravity_scale r = (if cat_phys_body self = Dynamic then cat_phys_gravity_scale self
                        else gravity_scale default_extras) \<and>
     linear_damping r = (if cat_phys_body self = Dynamic then cat_phys_linear_damping self
                         else linear_damping default_extras) \<and>
     angular_damping r = (if cat_phys_body self = Dynamic then cat_phys_angular_damping self
                          else angular_damping default_extras) \<and>
     is_trigger r = (if cat_phys_body self \<noteq> NoBody \<or> cat_phys_shape self \<noteq> NoShape
                     then cat_phys_is_trigger self else is_trigger default_extras) \<and>
     layer r = (if cat_phys_body self \<noteq> NoBody \<or> cat_phys_shape self \<noteq> NoShape
                then cat_phys_layer self else layer default_extras) \<and>
     mask_field r = (if cat_phys_body self \<noteq> NoBody \<or> cat_phys_shape self \<noteq> NoShape
                     then cat_phys_mask self else mask_field default_extras) \<and>
     material r = (if (cat_phys_body self \<noteq> NoBody \<or> cat_phys_shape self \<noteq> NoShape) \<and>
                      cat_phys_material self \<noteq> ''''
                   then cat_phys_material self else material default_extras)"
    unfolding r_def is_dynamic_iff has_physics_iff by simp
  from u d f show ?thesis by blast
qed

text \<open>
  The dynamic box of mass 2.5 and linear damping 0.1, written over an object that carried a
  stale material, reads back field by field.
\<close>

theorem decode_update_round_trip_dynamic_box:
  "\<exists>obj' r. update_physics_props
       \<lparr>cat_phys_body = Dynamic, cat_phys_shape = Box, cat_phys_mass = 5 / 2,
        cat_phys_gravity_scale = 1, cat_phys_linear_damping = 1 / 10,
        cat_phys_angular_damping = 0, cat_phys_is_trigger = False, cat_phys_layer = 1,
        cat_phys_mask = 1, cat_phys_material = ''''\<rparr>
       \<lparr>object = Some [''physics_material'' \<mapsto> VStr ''wood'']\<rparr> = Inr \<lparr>object = Some obj'\<rparr> \<and>
     decode obj' = Inr r \<and>
     body r = Dynamic \<and> shape r = Box \<and> mass r = 5 / 2 \<and> gravity_scale r = 1 \<and>
     linear_damping r = 1 / 10 \<and> angular_damping r = 0 \<and> is_trigger r = False \<and>
     layer r = 1 \<and> mask_field r = 1 \<and> material r = ''''"
  using decode_update_round_trip
    [of "\<lparr>object = Some [''physics_material'' \<mapsto> VStr ''wood'']\<rparr>"
        "[''physics_material'' \<mapsto> VStr ''wood'']"
        "\<lparr>cat_phys_body = Dynamic, cat_phys_shape = Box, cat_phys_mass = 5 / 2,
        cat_phys_gravity_scale = 1, cat_phys_linear_damping = 1 / 10,
        cat_phys_angular_damping = 0, cat_phys_is_trigger = False, cat_phys_layer = 1,
        cat_phys_mask = 1, cat_phys_material = ''''\<rparr>"]
  by (simp add: default_extras_def)

subsection \<open>The reader on structurally valid bags\<close>

lemma get_body_valid:
  "is_body (b ''physics_body'') \<Longrightarrow>
   \<exists>x. get_body b = Inr x \<and> (b ''physics_body'' = None \<longrightarrow> x = NoBody) \<and>
       (\<forall>s. b ''physics_body'' = Some (VStr s) \<longrightarrow> parse_body s = Some x)"
  by (auto simp add: is_body_def get_body_def split: option.splits prop_value.splits)

lemma get_shape_valid:
  "is_shape (b ''physics_shape'') \<Longrightarrow>
   \<exists>x. get_shape b = Inr x \<and> (b ''physics_shape'' = None \<longrightarrow> x = NoShape) \<and>
       (\<forall>s. b ''physics_shape'' = Some (VStr s) \<longrightarrow> parse_shape s = Some x)"
  by (auto simp add: is_shape_def get_shape_def split: option.splits prop_value.splits)

lemma get_float_valid:
  "is_float (b k) \<Longrightarrow>
   \<exists>x. get_float b k d = Inr x \<and> (b k = None \<longrightarrow> x = d) \<and>
       (\<forall>y. b k = Some (VFloat y) \<longrightarrow> x = y)"
  by (auto simp add: is_float_def get_float_def split: option.splits prop_value.splits)

lemma get_bool_valid:
  "is_bool (b k) \<Longrightarrow>
   \<exists>x. get_bool b k d = Inr x \<and> (b k = None \<longrightarrow> x = d) \<and>
       (\<forall>y. b k = Some (VBool y) \<longrightarrow> x = y)"
  by (auto simp add: is_bool_def get_bool_def split: option.splits prop_value.splits)

lemma get_int_valid:
  "is_int (b k) \<Longrightarrow>
   \<exists>x. get_int b k d = Inr x \<and> (b k = None \<longrightarrow> x = d) \<and>
       (\<forall>y. b k = Some (VInt y) \<longrightarrow> x = y)"
  by (auto simp add: is_int_def get_int_def split: option.splits prop_value.splits)

lemma get_str_valid:
  "is_str (b k) \<Longrightarrow>
   \<exists>x. get_str b k d = Inr x \<and> (b k = None \<longrightarrow> x = d) \<and>
       (\<forall>y. b k = Some (VStr y) \<longrightarrow> x = y)"
  by (auto simp add: is_str_def get_str_def split: option.splits prop_value.splits)

text \<open>
  Claim C7. On every structurally valid bag \<^verbatim>\<open>decode\<close> returns a record; each field whose key
  is absent holds its default, and each field whose key is present holds the value of the
  key (for an enum, the value whose string the key holds).
\<close>

theorem decode_total_with_defaults:
  assumes "structurally_valid b"
  shows "\<exists>r. decode b = Inr r \<and>
     (b ''physics_body'' = None \<longrightarrow> body r = body default_extras) \<and>
     (b ''physics_shape'' = None \<longrightarrow> shape r = shape default_extras) \<and>
     (b ''physics_mass'' = None \<longrightarrow> mass r = mass default_extras) \<and>
     (b ''physics_gravity_scale'' = None \<longrightarrow> gravity_scale r = gravity_scale default_extras) \<and>
     (b ''physics_linear_damping'' = None \<longrightarrow>
        linear_damping r = linear_damping default_extras) \<and>
     (b ''physics_angular_damping'' = None \<longrightarrow>
        angular_damping r = angular_damping default_extras) \<and>
     (b ''physics_is_trigger'' = None \<longrightarrow> is_trigger r = is_trigger default_extras) \<and>
     (b ''physics_layer'' = None \<longrightarrow> layer r = layer default_extras) \<and>
     (b ''physics_mask'' = None \<longrightarrow> mask_field r = mask_field default_extras) \<and>
     (b ''physics_material'' = None \<longrightarrow> material r = material default_extras) \<and>
     (\<forall>s. b ''physics_body'' = Some (VStr s) \<longrightarrow> parse_body s = Some (body r)) \<and>
     (\<forall>s. b ''physics_shape'' = Some (VStr s) \<longrightarrow> parse_shape s = Some (shape r)) \<and>
     (\<forall>x. b ''physics_mass'' = Some (VFloat x) \<longrightarrow> mass r = x) \<and>
     (\<forall>x. b ''physics_gravity_scale'' = Some (VFloat x) \<longrightarrow> gravity_scale r = x) \<and>
     (\<forall>x. b ''physics_linear_damping'' = Some (VFloat x) \<longrightarrow> linear_damping r = x) \<and>
     (\<forall>x. b ''physics_angular_damping'' = Some (VFloat x) \<longrightarrow> angular_damping r = x) \<and>
     (\<forall>x. b ''physics_is_trigger'' = Some (VBool x) \<longrightarrow> is_trigger r = x) \<and>
     (\<forall>x. b ''physics_layer'' = Some (VInt x) \<longrightarrow> layer r = x) \<and>
     (\<forall>x. b ''physics_mask'' = Some (VInt x) \<longrightarrow> mask_field r = x) \<and>
     (\<forall>x. b ''physics_material'' = Some (VStr x) \<longrightarrow> material r = x)"
proof -
  from assms have
    v1: "is_body (b ''physics_body'')" and v2: "is_shape (b ''physics_shape'')" and
    v3: "is_float (b ''physics_mass'')" and v4: "is_float (b ''physics_gravity_scale'')" and
    v5: "is_float (b ''physics_linear_damping'')" and
    v6: "is_float (b ''physics_angular_damping'')" and
    v7: "is_bool (b ''physics_is_trigger'')" and v8: "is_int (b ''physics_layer'')" and
    v9: "is_int (b ''physics_mask'')" and v10: "is_str (b ''physics_material'')"
    by (simp_all add: structurally_valid_def)
  from get_body_valid [of b, OF v1] obtain bo where
    h1: "get_body b = Inr bo \<and> (b ''physics_body'' = None \<longrightarrow> bo = NoBody) \<and>
       (\<forall>s. b ''physics_body'' = Some (VStr s) \<longrightarrow> parse_body s = Some bo)" ..
  from get_shape_valid [of b, OF v2] obtain sh where
    h2: "get_shape b = Inr sh \<and> (b ''physics_shape'' = None \<longrightarrow> sh = NoShape) \<and>
       (\<forall>s. b ''physics_shape'' = Some (VStr s) \<longrightarrow> parse_shape s = Some sh)" ..
  from get_float_valid [of b "''physics_mass''" "mass default_extras", OF v3] obtain ma where
    h3: "get_float b ''physics_mass'' (mass default_extras) = Inr ma \<and>
       (b ''physics_mass'' = None \<longrightarrow> ma = mass default_extras) \<and>
       (\<forall>y. b ''physics_mass'' = Some (VFloat y) \<longrightarrow> ma = y)" ..
  from get_float_valid [of b "''physics_gravity_scale''" "gravity_scale default_extras", OF v4] obtain gs where
    h4: "get_float b ''physics_gravity_scale'' (gravity_scale default_extras) = Inr gs \<and>
       (b ''physics_gravity_scale'' = None \<longrightarrow> gs = gravity_scale default_extras) \<and>
       (\<forall>y. b ''physics_gravity_scale'' = Some (VFloat y) \<longrightarrow> gs = y)" ..
  from get_float_valid [of b "''physics_linear_damping''" "linear_damping default_extras", OF v5] obtain ld where
    h5: "get_float b ''physics_linear_damping'' (linear_damping default_extras) = Inr ld \<and>
       (b ''physics_linear_damping'' = None \<longrightarrow> ld = linear_damping default_extras) \<and>
       (\<forall>y. b ''physics_linear_damping'' = Some (VFloat y) \<longrightarrow> ld = y)" ..
  from get_float_valid [of b "''physics_angular_damping''" "angular_damping default_extras", OF v6] obtain ad where
    h6: "get_float b ''physics_angular_damping'' (angular_damping default_extras) = Inr ad \<and>
       (b ''physics_angular_damping'' = None \<longrightarrow> ad = angular_damping default_extras) \<and>
       (\<forall>y. b ''physics_angular_damping'' = Some (VFloat y) \<longrightarrow> ad = y)" ..
  from get_bool_valid [of b "''physics_is_trigger''" "is_trigger default_extras", OF v7] obtain tr where
    h7: "get_bool b ''physics_is_trigger'' (is_trigger default_extras) = Inr tr \<and>
       (b ''physics_is_trigger'' = None \<longrightarrow> tr = is_trigger default_extras) \<and>
       (\<forall>y. b ''physics_is_trigger'' = Some (VBool y) \<longrightarrow> tr = y)" ..
  from get_int_valid [of b "''physics_layer''" "layer default_extras", OF v8] obtain la where
    h8: "get_int b ''physics_layer'' (layer default_extras) = Inr la \<and>
       (b ''physics_layer'' = None \<longrightarrow> la = layer default_extras) \<and>
       (\<forall>y. b ''physics_layer'' = Some (VInt y) \<longrightarrow> la = y)" ..
  from get_int_valid [of b "''physics_mask''" "mask_field default_extras", OF v9] obtain mk where
    h9: "get_int b ''physics_mask'' (mask_field default_extras) = Inr mk \<and>
       (b ''physics_mask'' = None \<longrightarrow> mk = mask_field default_extras) \<and>
       (\<forall>y. b ''physics_mask'' = Some (VInt y) \<longrightarrow> mk = y)" ..
  from get_str_valid [of b "''physics_material''" "material default_extras", OF v10] obtain mt where
    h10: "get_str b ''physics_material'' (material default_extras) = Inr mt \<and>
       (b ''physics_material'' = None \<longrightarrow> mt = material default_extras) \<and>
       (\<forall>y. b ''physics_material'' = Some (VStr y) \<longrightarrow> mt = y)" ..
  have d: "decode b =
      Inr \<lparr>body = bo, shape = sh, mass = ma, gravity_scale = gs, linear_damping = ld,
           angular_damping = ad, is_trigger = tr, layer = la, mask_field = mk,
           material = mt\<rparr>"
    unfolding decode_def h1 [THEN conjunct1] h2 [THEN conjunct1] h3 [THEN conjunct1]
      h4 [THEN conjunct1] h5 [THEN conjunct1] h6 [THEN conjunct1] h7 [THEN conjunct1]
      h8 [THEN conjunct1] h9 [THEN conjunct1] h10 [THEN conjunct1] and_then_Inr ..
  show ?thesis
    unfolding d
    using h1 h2 h3 h4 h5 h6 h7 h8 h9 h10
    by (simp add: default_extras_def)
qed

text \<open>
  The empty bag reads as the all-default record, and the bag that holds only the shape
  \<^verbatim>\<open>mesh\<close> reads as the all-default record with the shape \<open>Mesh\<close>.
\<close>

theorem decode_empty_and_mesh_only:
  "structurally_valid Map.empty \<and> decode Map.empty = Inr default_extras \<and>
   structurally_valid [''physics_shape'' \<mapsto> VStr ''mesh''] \<and>
   decode [''physics_shape'' \<mapsto> VStr ''mesh''] = Inr (default_extras\<lparr>shape := Mesh\<rparr>)"
proof -
  have e: "structurally_valid Map.empty"
    by (simp add: structurally_valid_def is_body_def is_shape_def is_float_def is_bool_def
        is_int_def is_str_def)
  have m: "structurally_valid [''physics_shape'' \<mapsto> VStr ''mesh'']"
    by (simp add: structurally_valid_def is_body_def is_shape_def is_float_def is_bool_def
        is_int_def is_str_def parse_shape_def)
  from decode_total_with_defaults [OF e] obtain r where
    "decode Map.empty = Inr r" and "r = default_extras"
    by (auto simp add: default_extras_def)
  moreover from decode_total_with_defaults [OF m] obtain r' where
    "decode [''physics_shape'' \<mapsto> VStr ''mesh''] = Inr r'" and
    "r' = default_extras\<lparr>shape := Mesh\<rparr>"
    by (auto simp add: default_extras_def parse_shape_def)
  ultimately show ?thesis using e m by simp
qed

subsection \<open>Unknown enum strings\<close>

text \<open>
  Claim C8. A bag whose \<^verbatim>\<open>physics_body\<close> holds a string outside the table makes \<^verbatim>\<open>decode\<close>
  report an unknown enum value (a malformed bag) at \<^verbatim>\<open>physics_body\<close>. A bag whose
  \<^verbatim>\<open>physics_shape\<close> holds a string outside the table makes it report an unknown enum value
  at \<^verbatim>\<open>physics_shape\<close>, unless \<^verbatim>\<open>physics_body\<close> is malformed too, which is then the key
  reported. In no case is a record with a default returned.
\<close>

theorem decode_unknown_enum_value:
  "(b ''physics_body'' = Some (VStr s) \<and> s \<notin> {''static'', ''dynamic'', ''kinematic''} \<longrightarrow>
      decode b = Inl (MalformedBag UnknownEnumValue ''physics_body'')) \<and>
   (b ''physics_shape'' = Some (VStr s) \<and>
    s \<notin> {''box'', ''sphere'', ''capsule'', ''convex'', ''mesh''} \<longrightarrow>
      (is_body (b ''physics_body'') \<longrightarrow>
         decode b = Inl (MalformedBag UnknownEnumValue ''physics_shape'')) \<and>
      (\<not> is_body (b ''physics_body'') \<longrightarrow>
         (\<exists>kind. decode b = Inl (MalformedBag kind ''physics_body''))))"
proof (intro conjI impI)
  assume "b ''physics_body'' = Some (VStr s) \<and> s \<notin> {''static'', ''dynamic'', ''kinematic''}"
  then have "get_body b = Inl (MalformedBag UnknownEnumValue ''physics_body'')"
    by (simp add: get_body_def parse_body_def)
  then show "decode b = Inl (MalformedBag UnknownEnumValue ''physics_body'')"
    by (simp add: decode_def and_then_def)
next
  assume s: "b ''physics_shape'' = Some (VStr s) \<and>
    s \<notin> {''box'', ''sphere'', ''capsule'', ''convex'', ''mesh''}"
  assume "is_body (b ''physics_body'')"
  then have "\<exists>x. get_body b = Inr x"
    by (auto simp add: is_body_def get_body_def split: option.splits prop_value.splits)
  then obtain x where "get_body b = Inr x" ..
  moreover from s have "get_shape b = Inl (MalformedBag UnknownEnumValue ''physics_shape'')"
    by (simp add: get_shape_def parse_shape_def)
  ultimately show "decode b = Inl (MalformedBag UnknownEnumValue ''physics_shape'')"
    by (simp add: decode_def and_then_def)
next
  assume "\<not> is_body (b ''physics_body'')"
  then have "\<exists>kind. get_body b = Inl (MalformedBag kind ''physics_body'')"
    by (auto simp add: is_body_def get_body_def split: option.splits prop_value.splits)
  then show "\<exists>kind. decode b = Inl (MalformedBag kind ''physics_body'')"
    by (auto simp add: decode_def and_then_def)
qed

text \<open>The body \<^verbatim>\<open>flying\<close> and the shape \<^verbatim>\<open>torus\<close>.\<close>

theorem decode_flying_body:
  "decode [''physics_body'' \<mapsto> VStr ''flying''] =
     Inl (MalformedBag UnknownEnumValue ''physics_body'') \<and>
   decode [''physics_shape'' \<mapsto> VStr ''torus''] =
     Inl (MalformedBag UnknownEnumValue ''physics_shape'')"
  using decode_unknown_enum_value [of "[''physics_body'' \<mapsto> VStr ''flying'']" "''flying''"]
    decode_unknown_enum_value [of "[''physics_shape'' \<mapsto> VStr ''torus'']" "''torus''"]
  by (simp add: is_body_def)

end
